theory Spec2Isabelle
  imports Complex_Main "HOL-Library.Multiset"
begin

section \<open>Values of the JavaScript program\<close>

text \<open>
  The application (\<^verbatim>\<open>src/App.jsx\<close>) keeps a list of expense objects, reads JSON and CSV
  files into it and derives totals, series and tips from it.

  An amount is a finite JavaScript number, read as the rational it denotes. The totals
  (\<^verbatim>\<open>total\<close>, \<^verbatim>\<open>categoryTotals\<close>, \<^verbatim>\<open>monthlyTotals\<close>), the budget percentage and the tips
  are computed with exact \<open>+\<close>, \<open>-\<close>, \<open>/\<close>: they are the program's results as long as its
  sums and quotients are exact in IEEE doubles (amounts that are integers or halves, as
  in the examples), and differ from them by the rounding otherwise. The running total of
  \<^verbatim>\<open>cumulativeData\<close> rounds every sum as the engine does and can overflow to an infinity.
  An amount that is \<open>Infinity\<close> or \<open>-Infinity\<close> (an import can read one from a text such
  as \<^verbatim>\<open>1e999\<close>) is outside the model. \<open>NaN\<close> is modelled where the code tests for it: a
  conversion that yields \<open>NaN\<close> returns \<open>None\<close>.

  Strings are \<open>char list\<close>s; a character is read as a code unit below 256.

  A value that \<^verbatim>\<open>JSON.parse\<close> can return is a \<open>json\<close>. The list under \<open>JObj\<close> holds the
  own properties of the parsed object (a key occurs once; \<open>map_of\<close> reads it).
\<close>

datatype json =
    JNull
  | JBool bool
  | JNum rat
  | JStr string
  | JArr "json list"
  | JObj "(string \<times> json) list"

text \<open>\<^verbatim>\<open>ToBoolean\<close>: what \<^verbatim>\<open>v || d\<close> and \<^verbatim>\<open>!v\<close> test.\<close>

fun truthy :: "json \<Rightarrow> bool" where
  "truthy JNull = False"
| "truthy (JBool b) = b"
| "truthy (JNum n) = (n \<noteq> 0)"
| "truthy (JStr s) = (s \<noteq> [])"
| "truthy (JArr xs) = True"
| "truthy (JObj kvs) = True"

fun primitive :: "json \<Rightarrow> bool" where
  "primitive (JArr xs) = False"
| "primitive (JObj kvs) = False"
| "primitive v = True"

text \<open>
  \<^verbatim>\<open>a === b\<close>. On primitives it compares type and value. On two arrays or objects
  JavaScript compares references, which these values do not carry; there the model
  compares the contents, and the theorems about \<open>===\<close> are stated for a primitive operand.
\<close>

definition strict_eq :: "json \<Rightarrow> json \<Rightarrow> bool" where
  "strict_eq a b = (a = b)"

text \<open>\<^verbatim>\<open>v || d\<close> where \<open>v\<close> may be \<^verbatim>\<open>undefined\<close> (\<open>None\<close>).\<close>

fun or_else :: "json option \<Rightarrow> json \<Rightarrow> json" where
  "or_else None d = d"
| "or_else (Some v) d = (if truthy v then v else d)"

text \<open>
  \<^verbatim>\<open>r.name\<close> for a parsed value \<open>r\<close> other than \<^verbatim>\<open>null\<close> and a name that no prototype
  defines (\<^verbatim>\<open>id\<close>, \<^verbatim>\<open>reason\<close>, \<^verbatim>\<open>amount\<close>, \<^verbatim>\<open>date\<close>, \<^verbatim>\<open>category\<close> are such names):
  the own property of an object, \<^verbatim>\<open>undefined\<close> otherwise.
\<close>

fun get_prop :: "json \<Rightarrow> string \<Rightarrow> json option" where
  "get_prop (JObj kvs) k = map_of kvs k"
| "get_prop v k = None"

text \<open>
  The result of an addition of doubles: a finite number or, beyond the range of the
  doubles, an infinity; \<open>le_number\<close> is \<^verbatim>\<open>a <= b\<close> on such results.
\<close>

datatype number = NegInf | Finite rat | PosInf

fun le_number :: "number \<Rightarrow> number \<Rightarrow> bool" where
  "le_number NegInf b = True"
| "le_number (Finite x) NegInf = False"
| "le_number (Finite x) (Finite y) = (x \<le> y)"
| "le_number (Finite x) PosInf = True"
| "le_number PosInf NegInf = False"
| "le_number PosInf (Finite y) = False"
| "le_number PosInf PosInf = True"

subsection \<open>The host\<close>

text \<open>
  What the program asks of the JavaScript engine and the browser, beyond the above, is
  a parameter of the model:
  \<^item> \<open>Number_string s\<close>: \<^verbatim>\<open>Number(s)\<close> for a string whose number is finite or \<open>NaN\<close>;
    \<open>None\<close> is \<open>NaN\<close> (a text that reads as an infinity is outside the model);
  \<^item> \<open>Number_object v\<close>: \<^verbatim>\<open>Number(v)\<close> for an array or object (its string form, converted);
    an object whose own \<^verbatim>\<open>toString\<close> and \<^verbatim>\<open>valueOf\<close> properties make the conversion
    throw is outside the model;
  \<^item> \<open>String_value v\<close>: \<^verbatim>\<open>String(v)\<close> for a number, an array or an object;
  \<^item> \<open>Date_value v\<close>: the time value of \<^verbatim>\<open>new Date(v)\<close> in milliseconds; \<open>None\<close> is the
    \<^verbatim>\<open>Invalid Date\<close>, whose time value is \<open>NaN\<close>;
  \<^item> \<open>getFullYear t\<close>, \<open>getMonth t\<close>: the local year and month (0 to 11) of a time value;
  \<^item> \<open>toISOString t\<close>: the ISO text of a time value;
  \<^item> \<open>localeCompare a b\<close>: \<^verbatim>\<open>a.localeCompare(b)\<close>;
  \<^item> \<open>JSON_parse t\<close>: \<^verbatim>\<open>JSON.parse(t)\<close>; \<open>None\<close> is the \<^verbatim>\<open>SyntaxError\<close>;
  \<^item> \<open>JSON_stringify v\<close>: \<^verbatim>\<open>JSON.stringify(v, null, 2)\<close>;
  \<^item> \<open>round_double x\<close>: the double that the engine returns for an operation whose exact
    result is \<open>x\<close> (the nearest double, or an infinity beyond the range);
  \<^item> \<open>sort_rank n answers i\<close>: where \<^verbatim>\<open>Array.prototype.sort\<close> of the engine puts element \<open>i\<close>
    of an array of length \<open>n\<close> when the comparator is not a consistent ordering;
    \<open>answers i j\<close> is what the comparator returns for the elements \<open>i\<close> and \<open>j\<close>. The
    language leaves this order to the engine, which decides it from these answers.
\<close>

record host =
  Number_string :: "string \<Rightarrow> rat option"
  Number_object :: "json \<Rightarrow> rat option"
  String_value :: "json \<Rightarrow> string"
  Date_value :: "json \<Rightarrow> int option"
  getFullYear :: "int \<Rightarrow> int"
  getMonth :: "int \<Rightarrow> nat"
  toISOString :: "int \<Rightarrow> string"
  localeCompare :: "string \<Rightarrow> string \<Rightarrow> int"
  JSON_parse :: "string \<Rightarrow> json option"
  JSON_stringify :: "json \<Rightarrow> string"
  round_double :: "rat \<Rightarrow> number"
  sort_rank :: "nat \<Rightarrow> (nat \<Rightarrow> nat \<Rightarrow> rat option) \<Rightarrow> nat \<Rightarrow> nat"

text \<open>\<^verbatim>\<open>Number(v)\<close>; \<open>None\<close> is \<open>NaN\<close>.\<close>

fun ToNumber :: "host \<Rightarrow> json \<Rightarrow> rat option" where
  "ToNumber h JNull = Some 0"
| "ToNumber h (JBool b) = Some (if b then 1 else 0)"
| "ToNumber h (JNum n) = Some n"
| "ToNumber h (JStr s) = Number_string h s"
| "ToNumber h (JArr xs) = Number_object h (JArr xs)"
| "ToNumber h (JObj kvs) = Number_object h (JObj kvs)"

text \<open>\<^verbatim>\<open>Number(v) || 0\<close> where \<open>v\<close> may be \<^verbatim>\<open>undefined\<close>: \<open>NaN\<close> and \<open>0\<close> give \<open>0\<close>.\<close>

fun Number_or_0 :: "host \<Rightarrow> json option \<Rightarrow> rat" where
  "Number_or_0 h None = 0"
| "Number_or_0 h (Some v) = (case ToNumber h v of None \<Rightarrow> 0 | Some n \<Rightarrow> n)"

text \<open>The property key that \<^verbatim>\<open>acc[v]\<close> uses: \<^verbatim>\<open>String(v)\<close>.\<close>

fun key_of :: "host \<Rightarrow> json \<Rightarrow> string" where
  "key_of h (JStr s) = s"
| "key_of h JNull = ''null''"
| "key_of h (JBool b) = (if b then ''true'' else ''false'')"
| "key_of h (JNum n) = String_value h (JNum n)"
| "key_of h (JArr xs) = String_value h (JArr xs)"
| "key_of h (JObj kvs) = String_value h (JObj kvs)"

section \<open>The record store\<close>

text \<open>
  An expense as \<^verbatim>\<open>addExpense\<close> and the two import handlers build it: an object with the
  five properties \<^verbatim>\<open>id\<close>, \<^verbatim>\<open>reason\<close>, \<^verbatim>\<open>amount\<close>, \<^verbatim>\<open>date\<close>, \<^verbatim>\<open>category\<close>. The amount is
  always a number; an import copies the other four from the file whatever their type.
\<close>

record expense =
  id' :: json
  reason :: json
  amount :: rat
  date :: json
  category :: json

text \<open>The keys of \<^verbatim>\<open>CATEGORY_META\<close>, in its order.\<close>

definition CATEGORY_META :: "string list" where
  "CATEGORY_META =
     [''Food & Drink'', ''Shopping'', ''Transportation'', ''Bills'', ''Entertainment'', ''Other'']"

text \<open>\<^verbatim>\<open>expenses.reduce((acc, e) => acc + e.amount, 0)\<close>\<close>

definition total :: "expense list \<Rightarrow> rat" where
  "total expenses = foldl (\<lambda>acc e. acc + amount e) 0 expenses"

text \<open>\<^verbatim>\<open>budget > 0 ? Math.min(1, Math.abs(total) / budget) : 0\<close>\<close>

definition percentOfBudget :: "expense list \<Rightarrow> rat \<Rightarrow> rat" where
  "percentOfBudget expenses budget =
     (if budget > 0 then min 1 (\<bar>total expenses\<bar> / budget) else 0)"

text \<open>
  \<^verbatim>\<open>deleteExpense(id)\<close>: \<open>confirmed\<close> is the answer to the \<^verbatim>\<open>confirm\<close> dialog; a refusal
  returns before the store is touched.
\<close>

definition deleteExpense :: "bool \<Rightarrow> json \<Rightarrow> expense list \<Rightarrow> expense list" where
  "deleteExpense confirmed i s =
     (if \<not> confirmed then s else filter (\<lambda>e. \<not> strict_eq (id' e) i) s)"

text \<open>
  \<^verbatim>\<open>addExpense\<close>. The form state: \<open>f_reason\<close> and \<open>f_date\<close> are the texts of their inputs;
  \<open>f_amount\<close> is the content of the \<^verbatim>\<open>type="number"\<close> input, which is empty (\<open>None\<close>) or
  the text of a number, the number \<^verbatim>\<open>parseFloat\<close> reads from it; \<open>f_category\<close> is the
  value of the \<^verbatim>\<open>select\<close>. \<open>now\<close> is \<^verbatim>\<open>Date.now()\<close>. The result is the alert shown, if any,
  and the store.
\<close>

record form =
  f_reason :: string
  f_amount :: "rat option"
  f_date :: string
  f_category :: string

definition addExpense :: "int \<Rightarrow> form \<Rightarrow> expense list \<Rightarrow> string option \<times> expense list" where
  "addExpense now f s =
     (case f_amount f of
        None \<Rightarrow> (Some ''Please fill reason, amount and date'', s)
      | Some a \<Rightarrow>
          if f_reason f = [] \<or> f_date f = []
          then (Some ''Please fill reason, amount and date'', s)
          else (None,
                s @ [\<lparr> id' = JNum (of_int now), reason = JStr (f_reason f), amount = a,
                       date = JStr (f_date f), category = JStr (f_category f) \<rparr>]))"

section \<open>Import\<close>

text \<open>
  What one element of an import reads from the environment: \<open>id_now\<close> is the
  \<^verbatim>\<open>Date.now()\<close> and \<open>rand\<close> the \<^verbatim>\<open>Math.random()\<close> of its generated id, \<open>date_now\<close> the
  time of the \<^verbatim>\<open>new Date()\<close> of its default date.
\<close>

record draw =
  id_now :: int
  rand :: rat
  date_now :: int

text \<open>\<^verbatim>\<open>Date.now() + Math.floor(Math.random() * 1000)\<close>\<close>

definition generated_id :: "draw \<Rightarrow> json" where
  "generated_id d = JNum (of_int (id_now d) + of_int \<lfloor>rand d * 1000\<rfloor>)"

text \<open>
  The object literal that both handlers build from a row \<open>r\<close> (\<^verbatim>\<open>cleaned\<close>); \<open>get\<close> reads
  a property of the row.
\<close>

definition cleaned :: "host \<Rightarrow> draw \<Rightarrow> (string \<Rightarrow> json option) \<Rightarrow> expense" where
  "cleaned h d get =
     \<lparr> id' = or_else (get ''id'') (generated_id d),
       reason = or_else (get ''reason'') (JStr ''Imported''),
       amount = Number_or_0 h (get ''amount''),
       date = or_else (get ''date'') (JStr (take 10 (toISOString h (date_now d)))),
       category = or_else (get ''category'') (JStr ''Other'') \<rparr>"

text \<open>
  \<^verbatim>\<open>data.map((r) => ({...}))\<close> of \<^verbatim>\<open>handleImportJSON\<close>, from element \<open>k\<close> on. Reading a
  property of \<^verbatim>\<open>null\<close> throws a \<^verbatim>\<open>TypeError\<close>, which ends the whole map: \<open>None\<close>.
\<close>

fun cleaned_json :: "host \<Rightarrow> (nat \<Rightarrow> draw) \<Rightarrow> nat \<Rightarrow> json list \<Rightarrow> expense list option" where
  "cleaned_json h draws k [] = Some []"
| "cleaned_json h draws k (r # rs) =
     (if r = JNull then None
      else (case cleaned_json h draws (Suc k) rs of
              None \<Rightarrow> None
            | Some es \<Rightarrow> Some (cleaned h (draws k) (get_prop r) # es)))"

text \<open>
  \<^verbatim>\<open>handleImportJSON\<close>, applied to the text of the file. Every exception of the
  \<^verbatim>\<open>try\<close> block reaches the one \<^verbatim>\<open>catch\<close>. The result is the alert and the store.
\<close>

definition handleImportJSON ::
  "host \<Rightarrow> (nat \<Rightarrow> draw) \<Rightarrow> string \<Rightarrow> expense list \<Rightarrow> string \<times> expense list" where
  "handleImportJSON h draws txt s =
     (case JSON_parse h txt of
        None \<Rightarrow> (''Invalid JSON file.'', s)
      | Some (JArr data) \<Rightarrow>
          (case cleaned_json h draws 0 data of
             None \<Rightarrow> (''Invalid JSON file.'', s)
           | Some es \<Rightarrow> (''Imported successfully'', s @ es))
      | Some v \<Rightarrow> (''Invalid JSON file.'', s))"

text \<open>\<^verbatim>\<open>JSON.stringify(records, null, 2)\<close> of \<^verbatim>\<open>downloadJSON\<close>: the text written to the file.\<close>

definition expense_json :: "expense \<Rightarrow> json" where
  "expense_json e =
     JObj [(''id'', id' e), (''reason'', reason e), (''amount'', JNum (amount e)),
           (''date'', date e), (''category'', category e)]"

definition downloadJSON :: "host \<Rightarrow> expense list \<Rightarrow> string" where
  "downloadJSON h records = JSON_stringify h (JArr (map expense_json records))"

subsection \<open>CSV\<close>

text \<open>\<^verbatim>\<open>s.split(c)\<close> for a one-character separator: always at least one piece.\<close>

fun split_on :: "char \<Rightarrow> string \<Rightarrow> string list" where
  "split_on c [] = [[]]"
| "split_on c (x # xs) =
     (if x = c then [] # split_on c xs
      else (case split_on c xs of [] \<Rightarrow> [[x]] | p # ps \<Rightarrow> (x # p) # ps))"

text \<open>
  \<^verbatim>\<open>txt.split(/\r?\n/)\<close>: the text is cut at every line feed, and a carriage return just
  before the line feed belongs to the separator.
\<close>

definition strip_cr :: "string \<Rightarrow> string" where
  "strip_cr p = (if p \<noteq> [] \<and> last p = CHR 0x0D then butlast p else p)"

fun strip_crs :: "string list \<Rightarrow> string list" where
  "strip_crs [] = []"
| "strip_crs [p] = [p]"
| "strip_crs (p # q # ps) = strip_cr p # strip_crs (q # ps)"

definition split_lines :: "string \<Rightarrow> string list" where
  "split_lines txt = strip_crs (split_on (CHR 0x0A) txt)"

text \<open>\<^verbatim>\<open>s.trim()\<close>: the white space and line terminators among the code units below 256.\<close>

definition white_space :: "char \<Rightarrow> bool" where
  "white_space c = (c \<in> set [CHR 0x09, CHR 0x0A, CHR 0x0B, CHR 0x0C, CHR 0x0D, CHR 0x20, CHR 0xA0])"

definition trim :: "string \<Rightarrow> string" where
  "trim s = rev (dropWhile white_space (rev (dropWhile white_space s)))"

text \<open>
  \<^verbatim>\<open>s.replace(/(^"|"$)/g, "")\<close>: a quote at the start goes, then a quote at the end of
  what is left.
\<close>

definition strip_quotes :: "string \<Rightarrow> string" where
  "strip_quotes s =
     (let s1 = (case s of [] \<Rightarrow> [] | c # cs \<Rightarrow> if c = CHR 0x22 then cs else s)
      in if s1 \<noteq> [] \<and> last s1 = CHR 0x22 then butlast s1 else s1)"

text \<open>
  \<^verbatim>\<open>headers.forEach((h, i) => (obj[h] = parts[i]))\<close> followed by \<^verbatim>\<open>obj[name]\<close>, for a name
  that no prototype defines: the last column with that header decides, and a row that is
  too short leaves \<^verbatim>\<open>undefined\<close> there.
\<close>

fun csv_field :: "string list \<Rightarrow> string list \<Rightarrow> string \<Rightarrow> string option" where
  "csv_field [] parts name = None"
| "csv_field (h # hs) parts name =
     (if name \<in> set hs then csv_field hs (tl parts) name
      else if h = name then (case parts of [] \<Rightarrow> None | p # ps \<Rightarrow> Some p)
      else None)"

definition csv_row :: "string list \<Rightarrow> string \<Rightarrow> string \<Rightarrow> json option" where
  "csv_row headers l name =
     map_option JStr (csv_field headers (map strip_quotes (split_on (CHR '','') l)) name)"

text \<open>\<^verbatim>\<open>rows.map((r) => ({...}))\<close> of the CSV branch, from row \<open>k\<close> on.\<close>

fun cleaned_csv :: "host \<Rightarrow> (nat \<Rightarrow> draw) \<Rightarrow> string list \<Rightarrow> nat \<Rightarrow> string list \<Rightarrow> expense list" where
  "cleaned_csv h draws headers k [] = []"
| "cleaned_csv h draws headers k (l # ls) =
     cleaned h (draws k) (csv_row headers l) # cleaned_csv h draws headers (Suc k) ls"

text \<open>The file handed to \<^verbatim>\<open>handleFileImport\<close>: its name, its media type and its text.\<close>

record upload =
  file_name :: string
  file_type :: string
  file_text :: string

definition endsWith :: "string \<Rightarrow> string \<Rightarrow> bool" where
  "endsWith s suffix = (length suffix \<le> length s \<and> drop (length s - length suffix) s = suffix)"

definition handleFileImport ::
  "host \<Rightarrow> (nat \<Rightarrow> draw) \<Rightarrow> upload \<Rightarrow> expense list \<Rightarrow> string \<times> expense list" where
  "handleFileImport h draws f s =
     (if file_type f = ''application/json'' \<or> endsWith (file_name f) ''.json''
      then handleImportJSON h draws (file_text f) s
      else
        (let lines = filter (\<lambda>l. l \<noteq> []) (split_lines (file_text f))
         in if length lines < 2 then (''CSV appears empty'', s)
            else
              (let headers = map (\<lambda>h. strip_quotes (trim h)) (split_on (CHR '','') (hd lines))
               in (''CSV imported (basic parser)'',
                   s @ cleaned_csv h draws headers 0 (tl lines)))))"

section \<open>Derived views\<close>

subsection \<open>Sorting\<close>

text \<open>
  \<^verbatim>\<open>list.sort(cmp)\<close>. The comparators of the program are differences of two keys and
  \<^verbatim>\<open>localeCompare\<close>. When every answer of the comparator on the list is a number, it is
  a consistent ordering, the sort is stable, and every engine returns the same list: the
  one built here by insertion. When an answer is \<open>NaN\<close> (\<open>None\<close>, a key that is no
  number) the order is the engine's: the elements are put where \<open>sort_rank\<close> says.
\<close>

definition positive :: "rat option \<Rightarrow> bool" where
  "positive v = (case v of None \<Rightarrow> False | Some x \<Rightarrow> x > 0)"

fun js_insert :: "('a \<Rightarrow> 'a \<Rightarrow> rat option) \<Rightarrow> 'a \<Rightarrow> 'a list \<Rightarrow> 'a list" where
  "js_insert cmp x [] = [x]"
| "js_insert cmp x (y # ys) =
     (if positive (cmp x y) then y # js_insert cmp x ys else x # y # ys)"

definition answers_are_numbers :: "('a \<Rightarrow> 'a \<Rightarrow> rat option) \<Rightarrow> 'a list \<Rightarrow> bool" where
  "answers_are_numbers cmp xs = list_all (\<lambda>a. list_all (\<lambda>b. cmp a b \<noteq> None) xs) xs"

definition engine_order :: "host \<Rightarrow> ('a \<Rightarrow> 'a \<Rightarrow> rat option) \<Rightarrow> 'a list \<Rightarrow> 'a list" where
  "engine_order h cmp xs =
     map snd (sort_key fst
       (zip (map (sort_rank h (length xs) (\<lambda>i j. cmp (xs ! i) (xs ! j))) [0..<length xs]) xs))"

definition js_sort :: "host \<Rightarrow> ('a \<Rightarrow> 'a \<Rightarrow> rat option) \<Rightarrow> 'a list \<Rightarrow> 'a list" where
  "js_sort h cmp xs =
     (if answers_are_numbers cmp xs then foldr (js_insert cmp) xs [] else engine_order h cmp xs)"

text \<open>\<^verbatim>\<open>a - b\<close> on numbers that may be \<open>NaN\<close>.\<close>

fun minus_num :: "rat option \<Rightarrow> rat option \<Rightarrow> rat option" where
  "minus_num (Some a) (Some b) = Some (a - b)"
| "minus_num a b = None"

subsection \<open>Filter and sort\<close>

text \<open>
  \<^verbatim>\<open>new Date(a) >= new Date(b)\<close> and \<^verbatim>\<open>new Date(a) <= new Date(b)\<close> compare the time
  values; a comparison with \<open>NaN\<close> is false.
\<close>

definition date_ge :: "host \<Rightarrow> json \<Rightarrow> json \<Rightarrow> bool" where
  "date_ge h a b =
     (case Date_value h a of None \<Rightarrow> False
      | Some x \<Rightarrow> (case Date_value h b of None \<Rightarrow> False | Some y \<Rightarrow> x \<ge> y))"

definition date_le :: "host \<Rightarrow> json \<Rightarrow> json \<Rightarrow> bool" where
  "date_le h a b =
     (case Date_value h a of None \<Rightarrow> False
      | Some x \<Rightarrow> (case Date_value h b of None \<Rightarrow> False | Some y \<Rightarrow> x \<le> y))"

definition filtered ::
  "host \<Rightarrow> expense list \<Rightarrow> string \<Rightarrow> string \<Rightarrow> string \<Rightarrow> string \<Rightarrow> expense list" where
  "filtered h expenses filterCategory filterFrom filterTo sortBy =
     (let list0 = expenses;
          list1 = (if filterCategory \<noteq> ''All''
                   then filter (\<lambda>x. strict_eq (category x) (JStr filterCategory)) list0
                   else list0);
          list2 = (if filterFrom \<noteq> []
                   then filter (\<lambda>x. date_ge h (date x) (JStr filterFrom)) list1 else list1);
          list3 = (if filterTo \<noteq> []
                   then filter (\<lambda>x. date_le h (date x) (JStr filterTo)) list2 else list2);
          list4 = (if sortBy = ''newest''
                   then js_sort h (\<lambda>a b. minus_num (ToNumber h (id' b)) (ToNumber h (id' a))) list3
                   else list3);
          list5 = (if sortBy = ''oldest''
                   then js_sort h (\<lambda>a b. minus_num (ToNumber h (id' a)) (ToNumber h (id' b))) list4
                   else list4);
          list6 = (if sortBy = ''high''
                   then js_sort h (\<lambda>a b. Some (amount b - amount a)) list5 else list5);
          list7 = (if sortBy = ''low''
                   then js_sort h (\<lambda>a b. Some (amount a - amount b)) list6 else list6)
      in list7)"

subsection \<open>Objects used as accumulators\<close>

text \<open>
  \<^verbatim>\<open>categoryTotals\<close>, \<^verbatim>\<open>monthlyTotals\<close> and \<^verbatim>\<open>insights\<close> sum into an object that starts as
  \<^verbatim>\<open>{}\<close>. Such an object inherits the properties of \<^verbatim>\<open>Object.prototype\<close>, so reading a
  key that it does not own yet gives \<^verbatim>\<open>undefined\<close> only when the key is none of these
  names; for these names the read gives a function or an object.
\<close>

definition Object_prototype_names :: "string list" where
  "Object_prototype_names =
     [''constructor'', ''__proto__'', ''hasOwnProperty'', ''isPrototypeOf'',
      ''propertyIsEnumerable'', ''toLocaleString'', ''toString'', ''valueOf'',
      ''__defineGetter__'', ''__defineSetter__'', ''__lookupGetter__'', ''__lookupSetter__'']"

text \<open>
  What such an object holds under a key: a number, or the string that \<open>+\<close> makes once
  one operand is not a number (\<open>PText\<close>; it starts with the text of the inherited
  function or object, so it is not empty and not the text of a number).
\<close>

datatype propval = PNum rat | PText

datatype lookup = Undefined | Own propval | Inherited

definition obj_get :: "(string \<times> propval) list \<Rightarrow> string \<Rightarrow> lookup" where
  "obj_get m k =
     (case map_of m k of
        Some v \<Rightarrow> Own v
      | None \<Rightarrow> if k \<in> set Object_prototype_names then Inherited else Undefined)"

text \<open>Writing an own property: in place when the key is there, at the end otherwise.\<close>

fun put :: "string \<Rightarrow> 'v \<Rightarrow> (string \<times> 'v) list \<Rightarrow> (string \<times> 'v) list" where
  "put k v [] = [(k, v)]"
| "put k v ((k', v') # m) = (if k' = k then (k, v) # m else (k', v') # put k v m)"

text \<open>
  \<^verbatim>\<open>acc[k] = (acc[k] || 0) + a\<close>. An own number is added to (\<open>0 || 0\<close> is \<open>0\<close>); a string
  is truthy and stays a string; an inherited value is truthy and \<open>+\<close> turns it into a
  string, which the assignment stores as an own property, except under \<^verbatim>\<open>__proto__\<close>,
  whose setter ignores a string and stores nothing.
\<close>

definition add_to :: "(string \<times> propval) list \<Rightarrow> string \<Rightarrow> rat \<Rightarrow> (string \<times> propval) list" where
  "add_to acc k a =
     (case obj_get acc k of
        Own (PNum v) \<Rightarrow> put k (PNum (v + a)) acc
      | Own PText \<Rightarrow> put k PText acc
      | Inherited \<Rightarrow> if k = ''__proto__'' then acc else put k PText acc
      | Undefined \<Rightarrow> put k (PNum a) acc)"

text \<open>
  The order of \<^verbatim>\<open>Object.keys\<close> and \<^verbatim>\<open>Object.entries\<close>: the keys that are array indices
  (canonical decimal numerals below \<open>2^32 - 1\<close>) in ascending order, then the other keys
  in the order of their creation.
\<close>

definition digit :: "char \<Rightarrow> bool" where
  "digit c = (c \<in> set ''0123456789'')"

definition nat_of_digits :: "string \<Rightarrow> nat" where
  "nat_of_digits s = foldl (\<lambda>n c. 10 * n + (of_char c - 48)) 0 s"

definition array_index :: "string \<Rightarrow> bool" where
  "array_index k =
     (k \<noteq> [] \<and> list_all digit k \<and> (k = ''0'' \<or> hd k \<noteq> CHR ''0'') \<and>
      nat_of_digits k < 4294967295)"

definition own_entries :: "(string \<times> 'v) list \<Rightarrow> (string \<times> 'v) list" where
  "own_entries m =
     sort_key (\<lambda>(k, v). nat_of_digits k) (filter (\<lambda>(k, v). array_index k) m) @
     filter (\<lambda>(k, v). \<not> array_index k) m"

subsection \<open>Totals by category and by month\<close>

definition categoryTotals :: "host \<Rightarrow> expense list \<Rightarrow> (string \<times> propval) list" where
  "categoryTotals h expenses =
     foldl (\<lambda>acc e. add_to acc (key_of h (category e)) (amount e)) [] expenses"

text \<open>\<^verbatim>\<open>Object.entries(categoryTotals).map(([k, v]) => ({ name: k, value: v }))\<close>\<close>

definition pieData :: "host \<Rightarrow> expense list \<Rightarrow> (string \<times> propval) list" where
  "pieData h expenses = own_entries (categoryTotals h expenses)"

text \<open>The decimal text of a number, as a template literal and \<^verbatim>\<open>toString()\<close> print it.\<close>

fun show_nat :: "nat \<Rightarrow> string" where
  "show_nat n =
     (if n < 10 then [''0123456789'' ! n]
      else show_nat (n div 10) @ [''0123456789'' ! (n mod 10)])"

declare show_nat.simps [simp del]

definition show_int :: "int \<Rightarrow> string" where
  "show_int i = (if i < 0 then CHR ''-'' # show_nat (nat (- i)) else show_nat (nat i))"

text \<open>\<^verbatim>\<open>s.padStart(2, "0")\<close>\<close>

definition padStart2 :: "string \<Rightarrow> string" where
  "padStart2 s = replicate (2 - length s) (CHR ''0'') @ s"

text \<open>The text built from a year and a month index (0 to 11), as \<^verbatim>\<open>monthKey\<close> builds it.\<close>

definition year_month :: "int \<Rightarrow> nat \<Rightarrow> string" where
  "year_month y m = show_int y @ ''-'' @ padStart2 (show_nat (m + 1))"

definition monthKey :: "host \<Rightarrow> json \<Rightarrow> string" where
  "monthKey h dateStr =
     (case Date_value h dateStr of
        None \<Rightarrow> ''Unknown''
      | Some d \<Rightarrow> year_month (getFullYear h d) (getMonth h d))"

definition monthlyTotals :: "host \<Rightarrow> expense list \<Rightarrow> (string \<times> propval) list" where
  "monthlyTotals h expenses =
     js_sort h (\<lambda>a b. Some (of_int (localeCompare h (fst a) (fst b))))
       (own_entries (foldl (\<lambda>m e. add_to m (monthKey h (date e)) (amount e)) [] expenses))"

text \<open>
  The sum of the values of such a list of totals, for the statements below: \<open>None\<close> when
  a value is not a number.
\<close>

fun sum_values :: "(string \<times> propval) list \<Rightarrow> rat option" where
  "sum_values [] = Some 0"
| "sum_values ((k, PNum v) # m) = map_option (\<lambda>s. v + s) (sum_values m)"
| "sum_values ((k, PText) # m) = None"

subsection \<open>Cumulative series\<close>





subsection \<open>Insights\<close>

text \<open>
  A tip is a template string; the model keeps its kind and the values printed in it
  (\<^verbatim>\<open>formatCurrency\<close> prints the numbers with the locale of the browser):
  \<^item> \<open>Started cat cur\<close>: \<^verbatim>\<open>You started spending in ${cat} this month: ...\<close>
  \<^item> \<open>More cat p\<close>: \<^verbatim>\<open>You spent ${p}% more on ${cat} than last month.\<close>
  \<^item> \<open>Less cat p\<close>: \<^verbatim>\<open>Good! You spent ${p}% less on ${cat} than last month.\<close>
  \<^item> \<open>BudgetAlert budget\<close>: \<^verbatim>\<open>Alert: you've exceeded your budget of ...\<close>
\<close>

datatype tip = Started string rat | More string int | Less string int | BudgetAlert rat

text \<open>\<^verbatim>\<open>Math.abs(map[cat] || 0)\<close>; \<open>None\<close> is \<open>NaN\<close> (of a string, a function or an object).\<close>

fun abs_or_0 :: "lookup \<Rightarrow> rat option" where
  "abs_or_0 Undefined = Some 0"
| "abs_or_0 (Own (PNum v)) = Some \<bar>v\<bar>"
| "abs_or_0 (Own PText) = None"
| "abs_or_0 Inherited = None"

text \<open>\<^verbatim>\<open>Math.round(x)\<close>\<close>

definition Math_round :: "rat \<Rightarrow> int" where
  "Math_round x = \<lfloor>x + 1 / 2\<rfloor>"

text \<open>The body of the loop over the categories: the tips it pushes for \<open>cat\<close>.\<close>

definition category_tip :: "string \<Rightarrow> rat option \<Rightarrow> rat option \<Rightarrow> tip list" where
  "category_tip cat cur prevv =
     (case prevv of
        None \<Rightarrow> []
      | Some p \<Rightarrow>
          (case cur of
             None \<Rightarrow> []
           | Some c \<Rightarrow>
               if p = 0 \<and> c > 0 then [Started cat c]
               else if p > 0 then
                 (let diffPct = ((c - p) / p) * 100
                  in if diffPct > 25 then [More cat (Math_round diffPct)]
                     else if diffPct < - 25 then [Less cat (Math_round (- diffPct))]
                     else [])
               else []))"

text \<open>
  \<^verbatim>\<open>new Date(y, m - 1, 1)\<close> read back with \<^verbatim>\<open>getFullYear\<close> and \<^verbatim>\<open>getMonth\<close>: the constructor
  takes a year from 0 to 99 as 1900 plus that year, and month \<open>-1\<close> is December of the
  year before.
\<close>

definition prev_month :: "int \<Rightarrow> nat \<Rightarrow> int \<times> nat" where
  "prev_month y m =
     (let y' = (if 0 \<le> y \<and> y \<le> 99 then 1900 + y else y)
      in if m = 0 then (y' - 1, 11) else (y', m - 1))"

text \<open>\<^verbatim>\<open>Object.keys({ ...map, ...mapPrev })\<close>\<close>

definition merged_keys :: "(string \<times> propval) list \<Rightarrow> (string \<times> propval) list \<Rightarrow> string list" where
  "merged_keys m mPrev =
     map fst (own_entries
       (foldl (\<lambda>obj (k, v). put k v obj) [] (own_entries m @ own_entries mPrev)))"

text \<open>The tips of the loop, before the budget alert; \<open>now\<close> is the time of \<^verbatim>\<open>new Date()\<close>.\<close>

definition category_tips :: "host \<Rightarrow> int \<Rightarrow> expense list \<Rightarrow> tip list" where
  "category_tips h now expenses =
     (let curMonthKey = year_month (getFullYear h now) (getMonth h now);
          prevKey = (case prev_month (getFullYear h now) (getMonth h now) of
                       (y, m) \<Rightarrow> year_month y m);
          m = foldl (\<lambda>acc e. if monthKey h (date e) = curMonthKey
                               then add_to acc (key_of h (category e)) (amount e) else acc)
                [] expenses;
          mPrev = foldl (\<lambda>acc e. if monthKey h (date e) = prevKey
                                   then add_to acc (key_of h (category e)) (amount e) else acc)
                    [] expenses
      in concat (map (\<lambda>cat. category_tip cat (abs_or_0 (obj_get m cat))
                                              (abs_or_0 (obj_get mPrev cat)))
                     (merged_keys m mPrev)))"

text \<open>
  \<^verbatim>\<open>insights\<close>: \<^verbatim>\<open>budget || Infinity\<close> is the budget unless it is \<open>0\<close>, and nothing
  exceeds \<open>Infinity\<close>.
\<close>

definition insights :: "host \<Rightarrow> int \<Rightarrow> expense list \<Rightarrow> rat \<Rightarrow> tip list" where
  "insights h now expenses budget =
     (let tips = category_tips h now expenses
      in if (budget \<noteq> 0 \<and> \<bar>total expenses\<bar> > budget) \<and> budget > 0
         then BudgetAlert budget # tips
         else tips)"

section \<open>Notions of the specification\<close>

text \<open>
  What an export to JSON followed by an import of that file makes of a record \<open>e\<close>, by the
  defaulting rules of the import: a field that is falsy (absent, \<^verbatim>\<open>null\<close>, \<open>0\<close>, the empty
  string) is replaced by its default, every other field is kept.
\<close>

definition reimported :: "host \<Rightarrow> draw \<Rightarrow> expense \<Rightarrow> expense" where
  "reimported h d e =
     \<lparr> id' = (if truthy (id' e) then id' e else generated_id d),
       reason = (if truthy (reason e) then reason e else JStr ''Imported''),
       amount = amount e,
       date = (if truthy (date e) then date e else JStr (take 10 (toISOString h (date_now d)))),
       category = (if truthy (category e) then category e else JStr ''Other'') \<rparr>"


text \<open>The invariant of the data model: the category is one of the fixed set.\<close>

definition valid_category :: "expense \<Rightarrow> bool" where
  "valid_category e = (category e \<in> JStr ` set CATEGORY_META)"


section \<open>Example data\<close>

text \<open>Records used as concrete inputs below.\<close>

definition coffee :: expense where
  "coffee = \<lparr> id' = JNum 1, reason = JStr ''Coffee'', amount = 5,
              date = JStr ''2024-01-05'', category = JStr ''Food & Drink'' \<rparr>"

definition bus :: expense where
  "bus = \<lparr> id' = JNum 2, reason = JStr ''Bus'', amount = 2,
           date = JStr ''2024-01-20'', category = JStr ''Transportation'' \<rparr>"

definition movie :: expense where
  "movie = \<lparr> id' = JNum 3, reason = JStr ''Movie'', amount = 8,
             date = JStr ''2024-02-01'', category = JStr ''Entertainment'' \<rparr>"

definition taxi :: expense where
  "taxi = \<lparr> id' = JNum 1706745600500, reason = JStr ''Taxi'', amount = 30,
            date = JStr ''2024-01-20'', category = JStr ''Travel'' \<rparr>"

text \<open>The text of a CSV file: a header line and one row with an empty id.\<close>

definition lunch_csv :: string where
  \<open>lunch_csv =
''id,reason,amount,date,category
,Lunch,12.5,2024-02-01,Food & Drink''\<close>

text \<open>A CSV file whose one row has the category \<^verbatim>\<open>__proto__\<close>, and the record it becomes.\<close>

definition gift_csv :: string where
  \<open>gift_csv =
''reason,amount,category
Gift,12.5,__proto__''\<close>

definition gift :: expense where
  "gift = \<lparr> id' = JNum 1706745600500, reason = JStr ''Gift'', amount = 25 / 2,
            date = JStr ''2024-02-01'', category = JStr ''__proto__'' \<rparr>"

definition tea_form :: form where
  "tea_form = \<lparr> f_reason = ''Tea'', f_amount = Some 3, f_date = ''2024-02-01'',
                 f_category = ''Food & Drink'' \<rparr>"


definition blank :: expense where
  "blank = \<lparr> id' = JNum 5, reason = JStr [], amount = 5,
             date = JStr ''2024-01-05'', category = JStr ''Other'' \<rparr>"

text \<open>The texts that \<^verbatim>\<open>JSON.stringify(records, null, 2)\<close> prints for two stores.\<close>

definition store_text :: string where
  \<open>store_text =
''[
  {
    "id": 1,
    "reason": "Coffee",
    "amount": 5,
    "date": "2024-01-05",
    "category": "Food & Drink"
  },
  {
    "id": 2,
    "reason": "Bus",
    "amount": 2,
    "date": "2024-01-20",
    "category": "Transportation"
  }
]''\<close>

definition blank_text :: string where
  \<open>blank_text =
''[
  {
    "id": 5,
    "reason": "",
    "amount": 5,
    "date": "2024-01-05",
    "category": "Other"
  }
]''\<close>

text \<open>Two files a user can pick for import, and what \<^verbatim>\<open>JSON.parse\<close> makes of them.\<close>

definition travel_text :: string where
  \<open>travel_text = ''[{"reason":"Taxi","amount":30,"date":"2024-01-20","category":"Travel"}]''\<close>

definition travel_json :: json where
  "travel_json =
     JArr [JObj [(''reason'', JStr ''Taxi''), (''amount'', JNum 30),
                 (''date'', JStr ''2024-01-20''), (''category'', JStr ''Travel'')]]"

definition tea_text :: string where
  \<open>tea_text = ''[{"reason":"Tea","category":""},7]''\<close>

definition tea_json :: json where
  "tea_json = JArr [JObj [(''reason'', JStr ''Tea''), (''category'', JStr [])], JNum 7]"

definition object_text :: string where
  \<open>object_text = ''{"reason":"Taxi","amount":30}''\<close>

definition object_json :: json where
  "object_json = JObj [(''reason'', JStr ''Taxi''), (''amount'', JNum 30)]"

text \<open>The order of the code units of two strings.\<close>

fun compare_units :: "string \<Rightarrow> string \<Rightarrow> int" where
  "compare_units [] [] = 0"
| "compare_units [] (y # ys) = - 1"
| "compare_units (x # xs) [] = 1"
| "compare_units (x # xs) (y # ys) =
     (if x = y then compare_units xs ys
      else if (of_char x :: nat) < of_char y then - 1 else 1)"

text \<open>
  A host for the examples: a browser in the time zone UTC, tabulated at the values the
  examples give it (the dates are midnight UTC in milliseconds; every other text is
  taken as no number, no date and no JSON). The sums of the examples are exact in
  doubles, so \<open>round_double\<close> returns them as they are, and no example sorts with a
  comparator that answers \<open>NaN\<close>, so \<open>sort_rank\<close> is never asked.
\<close>

definition example_host :: host where
  "example_host =
     \<lparr> Number_string = (\<lambda>s. if s = ''12.5'' then Some (25 / 2) else None),
       Number_object = (\<lambda>v. None),
       String_value = (\<lambda>v. ''[object Object]''),
       Date_value =
         (\<lambda>v. if v = JStr ''2024-01-05'' then Some 1704412800000
              else if v = JStr ''2024-01-20'' then Some 1705708800000
              else if v = JStr ''2024-02-01'' then Some 1706745600000
              else None),
       getFullYear = (\<lambda>t. 2024),
       getMonth = (\<lambda>t. if t < 1706745600000 then 0 else 1),
       toISOString = (\<lambda>t. ''2024-02-01T00:00:00.000Z''),
       localeCompare = compare_units,
       JSON_parse =
         (\<lambda>t. if t = store_text then Some (JArr (map expense_json [coffee, bus]))
              else if t = blank_text then Some (JArr (map expense_json [blank]))
              else if t = travel_text then Some travel_json
              else if t = tea_text then Some tea_json
              else if t = object_text then Some object_json
              else None),
       JSON_stringify =
         (\<lambda>v. if v = JArr (map expense_json [coffee, bus]) then store_text
              else if v = JArr (map expense_json [blank]) then blank_text
              else ''null''),
       round_double = Finite,
       sort_rank = (\<lambda>n answers i. i) \<rparr>"

text \<open>The reads of the environment in the examples: the first of February 2024, UTC.\<close>

definition example_draws :: "nat \<Rightarrow> draw" where
  "example_draws k = \<lparr> id_now = 1706745600000 + int k, rand = 1 / 2, date_now = 1706745600000 \<rparr>"

section \<open>Properties\<close>

lemma total_sum_list: "total es = sum_list (map amount es)"
proof -
  have "foldl (\<lambda>acc e. acc + amount e) a es = a + sum_list (map amount es)" for a
    by (induction es arbitrary: a) (simp_all add: add.assoc)
  from this [of 0] show ?thesis by (simp add: total_def)
qed

subsection \<open>Budget percentage\<close>

text \<open>
  Claim C6. For every record list and budget, the budget percentage is
  \<open>min 1 (|total spend| / budget)\<close> when the budget is positive and \<open>0\<close> otherwise, the
  total spend being the sum of the amounts of the records. It lies between \<open>0\<close> and \<open>1\<close>;
  a budget of \<open>0\<close> gives \<open>0\<close> whatever the spend, and a budget of \<open>10\<close> with a spend of
  \<open>15\<close> gives exactly \<open>1\<close>.
\<close>

theorem percentOfBudget_formula:
  "percentOfBudget es budget =
     (if budget > 0 then min 1 (\<bar>sum_list (map amount es)\<bar> / budget) else 0)
   \<and> 0 \<le> percentOfBudget es budget \<and> percentOfBudget es budget \<le> 1
   \<and> percentOfBudget es 0 = 0
   \<and> (sum_list (map amount es) = 15 \<longrightarrow> percentOfBudget es 10 = 1)"
  by (simp add: percentOfBudget_def total_sum_list)

theorem percentOfBudget_formula_witness:
  "sum_list (map amount [coffee, bus, movie]) = 15
   \<and> percentOfBudget [coffee, bus, movie] 10 = 1
   \<and> percentOfBudget [coffee, bus, movie] 0 = 0
   \<and> percentOfBudget [coffee, bus, movie] 60 = 1 / 4"
  using percentOfBudget_formula [of "[coffee, bus, movie]" 10]
    percentOfBudget_formula [of "[coffee, bus, movie]" 0]
    percentOfBudget_formula [of "[coffee, bus, movie]" 60]
  by (simp add: coffee_def bus_def movie_def)

subsection \<open>Deleting\<close>

text \<open>
  Claim C8. For every record list and every (primitive) id, a confirmed delete keeps
  exactly the records whose id differs from it, in their order; deleting an id that no
  record has leaves the list as it is, so deleting twice is deleting once. A delete that
  the user does not confirm changes nothing.
\<close>

theorem deleteExpense_exact:
  "primitive i \<Longrightarrow>
     deleteExpense True i s = filter (\<lambda>e. id' e \<noteq> i) s
   \<and> (i \<notin> id' ` set s \<longrightarrow> deleteExpense True i s = s)
   \<and> deleteExpense True i (deleteExpense True i s) = deleteExpense True i s
   \<and> deleteExpense False i s = s"
  by (auto simp: deleteExpense_def strict_eq_def filter_id_conv)

theorem deleteExpense_exact_witness:
  "primitive (JNum 1) \<and> deleteExpense True (JNum 1) [coffee, bus] = [bus]
   \<and> primitive (JNum 7) \<and> JNum 7 \<notin> id' ` set [coffee, bus]
   \<and> deleteExpense True (JNum 7) [coffee, bus] = [coffee, bus]"
  using deleteExpense_exact [of "JNum 1" "[coffee, bus]"]
    deleteExpense_exact [of "JNum 7" "[coffee, bus]"]
  by (simp add: coffee_def bus_def)

subsection \<open>Sorting keeps the elements\<close>

lemma mset_js_insert: "mset (js_insert cmp x ys) = add_mset x (mset ys)"
  by (induction ys) simp_all

lemma mset_insertion: "mset (foldr (js_insert cmp) xs []) = mset xs"
  by (induction xs) (simp_all add: mset_js_insert)

lemma mset_engine_order: "mset (engine_order h cmp xs) = mset xs"
proof -
  let ?ranks = "map (sort_rank h (length xs) (\<lambda>i j. cmp (xs ! i) (xs ! j))) [0..<length xs]"
  have a: "mset (engine_order h cmp xs) = image_mset snd (mset (zip ?ranks xs))"
    unfolding engine_order_def by (simp only: mset_map mset_sort)
  have b: "image_mset snd (mset (zip ?ranks xs)) = mset (map snd (zip ?ranks xs))"
    by (simp only: mset_map)
  have c: "map snd (zip ?ranks xs) = xs" by (simp add: map_snd_zip)
  show ?thesis by (simp only: a b c)
qed

lemma mset_js_sort: "mset (js_sort h cmp xs) = mset xs"
  by (simp add: js_sort_def mset_insertion mset_engine_order)

lemma set_js_sort: "set (js_sort h cmp xs) = set xs"
  using mset_js_sort [of h cmp xs] by (metis set_mset_mset)

lemma length_js_sort: "length (js_sort h cmp xs) = length xs"
  using mset_js_sort [of h cmp xs] by (metis size_mset)



subsection \<open>The filtered view\<close>

lemma set_filtered:
  "set (filtered h es c from to sortBy) =
     {x \<in> set es. (c \<noteq> ''All'' \<longrightarrow> category x = JStr c)
        \<and> (from \<noteq> [] \<longrightarrow> date_ge h (date x) (JStr from))
        \<and> (to \<noteq> [] \<longrightarrow> date_le h (date x) (JStr to))}"
  by (auto simp: filtered_def Let_def set_js_sort strict_eq_def)

text \<open>
  Claim C10. Whenever the from-date or the to-date of the filter is set (not empty), a
  record whose date does not parse (\<^verbatim>\<open>new Date\<close> gives the \<^verbatim>\<open>Invalid Date\<close>) is not in
  the filtered view, whatever the category filter and the sort order: a comparison with
  its time value \<open>NaN\<close> is false.
\<close>

theorem filtered_excludes_invalid_dates:
  "(filterFrom \<noteq> [] \<or> filterTo \<noteq> []) \<Longrightarrow> Date_value h (date x) = None \<Longrightarrow>
     x \<notin> set (filtered h es filterCategory filterFrom filterTo sortBy)"
  by (auto simp: set_filtered date_ge_def date_le_def)

theorem filtered_excludes_invalid_dates_witness:
  "''2024-01-05'' \<noteq> []
   \<and> Date_value example_host (date (coffee \<lparr> date := JStr ''soon'' \<rparr>)) = None
   \<and> coffee \<lparr> date := JStr ''soon'' \<rparr>
       \<notin> set (filtered example_host [coffee \<lparr> date := JStr ''soon'' \<rparr>, bus]
                 ''All'' ''2024-01-05'' [] ''newest'')"
  using filtered_excludes_invalid_dates
    [of "''2024-01-05''" "[]" example_host "coffee \<lparr> date := JStr ''soon'' \<rparr>"
        "[coffee \<lparr> date := JStr ''soon'' \<rparr>, bus]" "''All''" "''newest''"]
  by (simp add: example_host_def coffee_def)

subsection \<open>Insights\<close>



lemma insights_without_alert:
  "\<not> (0 < budget \<and> budget < \<bar>total es\<bar>) \<Longrightarrow> insights h now es budget = category_tips h now es"
  by (auto simp: insights_def Let_def)



subsection \<open>Import of a broken JSON file\<close>

lemma cleaned_json_length:
  "cleaned_json h draws k rs = Some es \<Longrightarrow> length es = length rs"
  by (induction rs arbitrary: k es) (auto split: if_splits option.splits)

lemma handleImportJSON_all_or_nothing:
  "handleImportJSON h draws txt s = (''Invalid JSON file.'', s) \<or>
   (\<exists>data es. JSON_parse h txt = Some (JArr data) \<and> cleaned_json h draws 0 data = Some es \<and>
      length es = length data \<and>
      handleImportJSON h draws txt s = (''Imported successfully'', s @ es))"
  by (auto simp: handleImportJSON_def cleaned_json_length split: option.splits json.splits)

text \<open>
  Claim C5. When the text of the file is not JSON (\<^verbatim>\<open>JSON.parse\<close> throws), or parses to a
  value that is not an array, the JSON import shows the alert \<^verbatim>\<open>Invalid JSON file.\<close> and
  the store is the one before, also when the import is started through
  \<^verbatim>\<open>handleFileImport\<close> with a JSON file.
\<close>

theorem handleImportJSON_invalid:
  "(JSON_parse h txt = None \<or> (\<exists>v. JSON_parse h txt = Some v \<and> (\<forall>data. v \<noteq> JArr data))) \<Longrightarrow>
     handleImportJSON h draws txt s = (''Invalid JSON file.'', s)
   \<and> (file_type f = ''application/json'' \<or> endsWith (file_name f) ''.json'' \<longrightarrow>
        file_text f = txt \<longrightarrow> handleFileImport h draws f s = (''Invalid JSON file.'', s))"
  by (auto simp: handleImportJSON_def handleFileImport_def split: option.splits json.splits)

theorem handleImportJSON_invalid_witness:
  "JSON_parse example_host ''[{'' = None
   \<and> handleImportJSON example_host example_draws ''[{'' [coffee] = (''Invalid JSON file.'', [coffee])
   \<and> JSON_parse example_host object_text = Some object_json
   \<and> handleImportJSON example_host example_draws object_text [coffee]
       = (''Invalid JSON file.'', [coffee])
   \<and> endsWith ''data.json'' ''.json''
   \<and> handleFileImport example_host example_draws
        \<lparr> file_name = ''data.json'', file_type = [], file_text = object_text \<rparr> [coffee]
       = (''Invalid JSON file.'', [coffee])"
  using handleImportJSON_invalid [of example_host "''[{''" example_draws "[coffee]"]
    handleImportJSON_invalid [of example_host object_text example_draws "[coffee]"
      "\<lparr> file_name = ''data.json'', file_type = [], file_text = object_text \<rparr>"]
  by (simp add: example_host_def object_json_def endsWith_def
      store_text_def blank_text_def travel_text_def tea_text_def object_text_def)

subsection \<open>Cumulative series\<close>



lemma le_number_refl: "le_number a a"
  by (cases a) simp_all














subsection \<open>Import of a CSV file\<close>

lemma split_lines_lunch_csv:
  "split_lines lunch_csv =
     [''id,reason,amount,date,category'', '',Lunch,12.5,2024-02-01,Food & Drink'']"
  by (simp add: lunch_csv_def split_lines_def strip_cr_def)

text \<open>
  Claim C7. The import of a CSV file (a file that is not taken for JSON) with the header
  line \<^verbatim>\<open>id,reason,amount,date,category\<close> and the one row
  \<^verbatim>\<open>,Lunch,12.5,2024-02-01,Food & Drink\<close> appends exactly one record to the store: its id
  is generated, its reason is \<^verbatim>\<open>Lunch\<close>, its amount 12.5, its date \<^verbatim>\<open>2024-02-01\<close> and its
  category \<^verbatim>\<open>Food & Drink\<close>. (That \<^verbatim>\<open>Number("12.5")\<close> is 12.5 is asked of the host.)
\<close>

theorem csv_import_lunch:
  "Number_string h ''12.5'' = Some (25 / 2) \<Longrightarrow>
   file_text f = lunch_csv \<Longrightarrow>
   file_type f \<noteq> ''application/json'' \<Longrightarrow> \<not> endsWith (file_name f) ''.json'' \<Longrightarrow>
     handleFileImport h draws f s =
       (''CSV imported (basic parser)'',
        s @ [\<lparr> id' = generated_id (draws 0), reason = JStr ''Lunch'', amount = 25 / 2,
                date = JStr ''2024-02-01'', category = JStr ''Food & Drink'' \<rparr>])"
  by (simp add: handleFileImport_def split_lines_lunch_csv Let_def trim_def white_space_def
      strip_quotes_def cleaned_def csv_row_def)

theorem csv_import_lunch_witness:
  "Number_string example_host ''12.5'' = Some (25 / 2)
   \<and> ''text/csv'' \<noteq> ''application/json'' \<and> \<not> endsWith ''lunch.csv'' ''.json''
   \<and> handleFileImport example_host example_draws
        \<lparr> file_name = ''lunch.csv'', file_type = ''text/csv'', file_text = lunch_csv \<rparr> [coffee]
       = (''CSV imported (basic parser)'',
          [coffee, \<lparr> id' = JNum 1706745600500, reason = JStr ''Lunch'', amount = 25 / 2,
                     date = JStr ''2024-02-01'', category = JStr ''Food & Drink'' \<rparr>])"
  using csv_import_lunch [of example_host
      "\<lparr> file_name = ''lunch.csv'', file_type = ''text/csv'', file_text = lunch_csv \<rparr>"
      example_draws "[coffee]"]
  by (simp add: example_host_def endsWith_def generated_id_def example_draws_def)

subsection \<open>Export to JSON and import of the exported file\<close>

lemma cleaned_expense_json: "cleaned h d (get_prop (expense_json e)) = reimported h d e"
  by (simp add: cleaned_def expense_json_def reimported_def)

lemma reimported_same:
  "truthy (id' e) \<Longrightarrow> truthy (reason e) \<Longrightarrow> truthy (date e) \<Longrightarrow> truthy (category e) \<Longrightarrow>
     reimported h d e = e"
  by (simp add: reimported_def)

lemma cleaned_json_nth:
  "cleaned_json h draws k data = Some es \<Longrightarrow> i < length data \<Longrightarrow>
     es ! i = cleaned h (draws (k + i)) (get_prop (data ! i))"
proof (induction data arbitrary: k es i)
  case Nil
  then show ?case by simp
next
  case (Cons r rs)
  then obtain es' where es': "cleaned_json h draws (Suc k) rs = Some es'"
    and es: "es = cleaned h (draws k) (get_prop r) # es'"
    by (auto split: if_splits option.splits)
  show ?case
  proof (cases i)
    case 0
    then show ?thesis by (simp add: es)
  next
    case (Suc j)
    with Cons.prems have "j < length rs" by simp
    from Cons.IH [OF es' this] show ?thesis by (simp add: es Suc)
  qed
qed

lemma cleaned_json_export:
  "\<exists>es. cleaned_json h draws k (map expense_json s) = Some es"
proof (induction s arbitrary: k)
  case Nil
  show ?case by simp
next
  case (Cons e s)
  from Cons.IH [of "Suc k"] obtain es
    where "cleaned_json h draws (Suc k) (map expense_json s) = Some es" by blast
  moreover have "expense_json e \<noteq> JNull" by (simp add: expense_json_def)
  ultimately show ?case by simp
qed

text \<open>
  Claim C2, amended. Take a store \<open>s\<close> whose amounts are finite numbers (as every store
  of the model is), and let \<^verbatim>\<open>JSON.parse\<close> read the text that \<^verbatim>\<open>JSON.stringify\<close> prints for
  the records of \<open>s\<close> back as the array of these objects. Then the import of the file
  that \<^verbatim>\<open>downloadJSON\<close> writes succeeds and appends one record per record of \<open>s\<close>, in
  order. Each is equal to its original by id, reason, amount, date and category, except
  that a falsy id is replaced by a generated one and, in the same way, a falsy (empty)
  reason, date or category by the default of the import (\<^verbatim>\<open>Imported\<close>, the current date,
  \<^verbatim>\<open>Other\<close>). Such a store whose records have none of these four fields falsy is
  reproduced exactly.
\<close>

theorem json_round_trip:
  assumes "JSON_parse h (JSON_stringify h (JArr (map expense_json s)))
             = Some (JArr (map expense_json s))"
  shows "\<exists>es. handleImportJSON h draws (downloadJSON h s) s0 = (''Imported successfully'', s0 @ es)
           \<and> length es = length s
           \<and> (\<forall>i < length s. es ! i = reimported h (draws i) (s ! i))
           \<and> ((\<forall>e \<in> set s. truthy (id' e) \<and> truthy (reason e) \<and> truthy (date e)
                              \<and> truthy (category e))
                \<longrightarrow> es = s)"
proof -
  obtain es where es: "cleaned_json h draws 0 (map expense_json s) = Some es"
    using cleaned_json_export by blast
  have len: "length es = length s"
    using cleaned_json_length [OF es] by simp
  have nth: "es ! i = reimported h (draws i) (s ! i)" if "i < length s" for i
    using cleaned_json_nth [OF es, of i] that by (simp add: cleaned_expense_json)
  have same: "es = s"
    if "\<forall>e \<in> set s. truthy (id' e) \<and> truthy (reason e) \<and> truthy (date e) \<and> truthy (category e)"
  proof (rule nth_equalityI [OF len])
    fix i assume "i < length es"
    with len have i: "i < length s" by simp
    then have "s ! i \<in> set s" by simp
    with that nth [OF i] show "es ! i = s ! i" by (simp add: reimported_same)
  qed
  have "handleImportJSON h draws (downloadJSON h s) s0 = (''Imported successfully'', s0 @ es)"
    by (simp add: handleImportJSON_def downloadJSON_def assms es)
  with len nth same show ?thesis by blast
qed

theorem json_round_trip_witness:
  "JSON_parse example_host (JSON_stringify example_host (JArr (map expense_json [coffee, bus])))
     = Some (JArr (map expense_json [coffee, bus]))
   \<and> handleImportJSON example_host example_draws (downloadJSON example_host [coffee, bus]) []
     = (''Imported successfully'', [coffee, bus])
   \<and> truthy (id' coffee) \<and> truthy (reason coffee) \<and> truthy (date coffee) \<and> truthy (category coffee)
   \<and> truthy (id' bus) \<and> truthy (reason bus) \<and> truthy (date bus) \<and> truthy (category bus)"
proof -
  have rt: "JSON_parse example_host
      (JSON_stringify example_host (JArr (map expense_json [coffee, bus])))
     = Some (JArr (map expense_json [coffee, bus]))"
    by (simp add: example_host_def)
  have t: "\<forall>e \<in> set [coffee, bus].
      truthy (id' e) \<and> truthy (reason e) \<and> truthy (date e) \<and> truthy (category e)"
    by (simp add: coffee_def bus_def)
  from json_round_trip [OF rt, of example_draws "[]"] t rt
  show ?thesis by (auto simp: coffee_def bus_def)
qed

text \<open>
  The claim as it was stated fails: a record that has an id and an empty reason comes
  back with the reason \<^verbatim>\<open>Imported\<close>.
\<close>

theorem json_round_trip_counterexample:
  "truthy (id' blank)
   \<and> JSON_parse example_host (JSON_stringify example_host (JArr (map expense_json [blank])))
       = Some (JArr (map expense_json [blank]))
   \<and> handleImportJSON example_host example_draws (downloadJSON example_host [blank]) []
       = (''Imported successfully'', [blank \<lparr> reason := JStr ''Imported'' \<rparr>])
   \<and> reason (blank \<lparr> reason := JStr ''Imported'' \<rparr>) \<noteq> reason blank"
proof -
  have ne: "JArr [expense_json blank] \<noteq> JArr [expense_json coffee, expense_json bus]"
    by simp
  have ne2: "blank_text \<noteq> store_text"
    by (simp add: blank_text_def store_text_def)
  have rt: "JSON_parse example_host (JSON_stringify example_host (JArr (map expense_json [blank])))
      = Some (JArr (map expense_json [blank]))"
    using ne ne2 by (simp add: example_host_def)
  have cl: "cleaned_json example_host example_draws 0 (map expense_json [blank])
      = Some [blank \<lparr> reason := JStr ''Imported'' \<rparr>]"
  proof -
    have "expense_json blank \<noteq> JNull" by (simp add: expense_json_def)
    then show ?thesis by (simp add: cleaned_expense_json reimported_def blank_def)
  qed
  show ?thesis
    using rt cl by (simp add: handleImportJSON_def downloadJSON_def) (simp add: blank_def)
qed

subsection \<open>Categories in the store\<close>

lemma cleaned_category:
  "category (cleaned h d get) =
     (case get ''category'' of None \<Rightarrow> JStr ''Other''
      | Some v \<Rightarrow> if truthy v then v else JStr ''Other'')"
  by (simp add: cleaned_def split: option.splits)

lemma length_cleaned_csv: "length (cleaned_csv h draws headers k ls) = length ls"
  by (induction ls arbitrary: k) simp_all

lemma cleaned_csv_nth:
  "i < length ls \<Longrightarrow>
     cleaned_csv h draws headers k ls ! i = cleaned h (draws (k + i)) (csv_row headers (ls ! i))"
proof (induction ls arbitrary: k i)
  case Nil
  then show ?case by simp
next
  case (Cons l ls)
  show ?case
  proof (cases i)
    case 0
    then show ?thesis by simp
  next
    case (Suc j)
    with Cons.prems have "j < length ls" by simp
    from Cons.IH [OF this, of "Suc k"] show ?thesis by (simp add: Suc)
  qed
qed

lemma addExpense_valid:
  "f_category f \<in> set CATEGORY_META \<Longrightarrow> list_all valid_category s \<Longrightarrow>
     list_all valid_category (snd (addExpense now f s))"
  by (auto simp: addExpense_def valid_category_def split: option.splits)

lemma deleteExpense_valid:
  "list_all valid_category s \<Longrightarrow> list_all valid_category (deleteExpense c i s)"
  by (auto simp: deleteExpense_def list_all_iff)

lemma import_json_categories:
  assumes "handleImportJSON h draws t s = (''Imported successfully'', s')"
  shows "\<exists>data es. JSON_parse h t = Some (JArr data) \<and> s' = s @ es \<and> length es = length data
           \<and> (\<forall>k < length data. category (es ! k) =
                 (case get_prop (data ! k) ''category'' of None \<Rightarrow> JStr ''Other''
                  | Some v \<Rightarrow> if truthy v then v else JStr ''Other''))"
proof -
  from handleImportJSON_all_or_nothing [of h draws t s] assms
  obtain data es where p: "JSON_parse h t = Some (JArr data)"
    and c: "cleaned_json h draws 0 data = Some es" and l: "length es = length data"
    and r: "handleImportJSON h draws t s = (''Imported successfully'', s @ es)"
    by auto
  from r assms have "s' = s @ es" by simp
  moreover have "category (es ! k) =
                 (case get_prop (data ! k) ''category'' of None \<Rightarrow> JStr ''Other''
                  | Some v \<Rightarrow> if truthy v then v else JStr ''Other'')" if "k < length data" for k
    using cleaned_json_nth [OF c that] by (simp add: cleaned_category)
  ultimately show ?thesis using p l by blast
qed

lemma import_csv_categories:
  assumes "file_type f \<noteq> ''application/json''" "\<not> endsWith (file_name f) ''.json''"
    and "ls = filter (\<lambda>l. l \<noteq> []) (split_lines (file_text f))"
    and "headers = map (\<lambda>h. strip_quotes (trim h)) (split_on (CHR '','') (hd ls))"
    and "2 \<le> length ls"
  shows "\<exists>es. handleFileImport h draws f s = (''CSV imported (basic parser)'', s @ es)
           \<and> length es = length (tl ls)
           \<and> (\<forall>k < length (tl ls). category (es ! k) =
                 (case csv_row headers (tl ls ! k) ''category'' of None \<Rightarrow> JStr ''Other''
                  | Some v \<Rightarrow> if truthy v then v else JStr ''Other''))"
proof -
  let ?es = "cleaned_csv h draws headers 0 (tl ls)"
  have "handleFileImport h draws f s = (''CSV imported (basic parser)'', s @ ?es)"
    using assms by (simp add: handleFileImport_def Let_def)
  moreover have "length ?es = length (tl ls)" by (simp only: length_cleaned_csv)
  moreover have "category (?es ! k) =
                 (case csv_row headers (tl ls ! k) ''category'' of None \<Rightarrow> JStr ''Other''
                  | Some v \<Rightarrow> if truthy v then v else JStr ''Other'')"
    if "k < length (tl ls)" for k
    using cleaned_csv_nth [OF that, of h draws headers 0] by (simp add: cleaned_category)
  ultimately show ?thesis by blast
qed

text \<open>
  Claim C3, amended. Adding a record through the form, whose category is an option of
  the select (a key of \<^verbatim>\<open>CATEGORY_META\<close>), and deleting keep every category of the store
  in the fixed set. An import (JSON or CSV) gives each imported record the category
  \<^verbatim>\<open>Other\<close> when the file has none or an empty (falsy) one for it, and the category of
  the file, whatever it is, otherwise: the store stays within the fixed set only if the
  categories of the file are in it.
\<close>

theorem store_categories:
  "(f_category f \<in> set CATEGORY_META \<longrightarrow> list_all valid_category s \<longrightarrow>
      list_all valid_category (snd (addExpense now f s)))
   \<and> (list_all valid_category s \<longrightarrow> list_all valid_category (deleteExpense c i s))
   \<and> (handleImportJSON h draws t s = (''Imported successfully'', s') \<longrightarrow>
        (\<exists>data es. JSON_parse h t = Some (JArr data) \<and> s' = s @ es \<and> length es = length data
           \<and> (\<forall>k < length data. category (es ! k) =
                 (case get_prop (data ! k) ''category'' of None \<Rightarrow> JStr ''Other''
                  | Some v \<Rightarrow> if truthy v then v else JStr ''Other''))))
   \<and> (file_type u \<noteq> ''application/json'' \<and> \<not> endsWith (file_name u) ''.json''
        \<and> ls = filter (\<lambda>l. l \<noteq> []) (split_lines (file_text u))
        \<and> headers = map (\<lambda>h. strip_quotes (trim h)) (split_on (CHR '','') (hd ls))
        \<and> 2 \<le> length ls \<longrightarrow>
        (\<exists>es. handleFileImport h draws u s = (''CSV imported (basic parser)'', s @ es)
           \<and> length es = length (tl ls)
           \<and> (\<forall>k < length (tl ls). category (es ! k) =
                 (case csv_row headers (tl ls ! k) ''category'' of None \<Rightarrow> JStr ''Other''
                  | Some v \<Rightarrow> if truthy v then v else JStr ''Other''))))"
  using addExpense_valid [of f s now] deleteExpense_valid [of s c i]
    import_json_categories [of h draws t s s']
    import_csv_categories [of u ls headers h draws s]
  by blast

lemma JSON_parse_tea_text: "JSON_parse example_host tea_text = Some tea_json"
  by (simp add: example_host_def tea_text_def travel_text_def store_text_def blank_text_def)

lemma JSON_parse_travel_text: "JSON_parse example_host travel_text = Some travel_json"
  by (simp add: example_host_def travel_text_def store_text_def blank_text_def)

theorem store_categories_witness:
  "f_category tea_form \<in> set CATEGORY_META \<and> list_all valid_category [coffee]
   \<and> list_all valid_category (snd (addExpense 1706745600000 tea_form [coffee]))
   \<and> list_all valid_category (deleteExpense True (JNum 1) [coffee])
   \<and> handleImportJSON example_host example_draws tea_text [coffee] =
       (''Imported successfully'',
        [coffee,
         \<lparr> id' = JNum 1706745600500, reason = JStr ''Tea'', amount = 0,
            date = JStr ''2024-02-01'', category = JStr ''Other'' \<rparr>,
         \<lparr> id' = JNum 1706745600501, reason = JStr ''Imported'', amount = 0,
            date = JStr ''2024-02-01'', category = JStr ''Other'' \<rparr>])
   \<and> ''text/csv'' \<noteq> ''application/json'' \<and> \<not> endsWith ''lunch.csv'' ''.json''
   \<and> 2 \<le> length (filter (\<lambda>l. l \<noteq> []) (split_lines lunch_csv))
   \<and> map category (snd (handleFileImport example_host example_draws
        \<lparr> file_name = ''lunch.csv'', file_type = ''text/csv'', file_text = lunch_csv \<rparr> [coffee]))
       = [JStr ''Food & Drink'', JStr ''Food & Drink'']"
  using store_categories [where f = tea_form and s = "[coffee]" and now = 1706745600000
      and c = True and i = "JNum 1" and h = example_host and draws = example_draws
      and t = tea_text
      and u = "\<lparr> file_name = ''lunch.csv'', file_type = ''text/csv'', file_text = lunch_csv \<rparr>"]
  by (simp add: tea_form_def CATEGORY_META_def valid_category_def coffee_def addExpense_def
      deleteExpense_def strict_eq_def handleImportJSON_def JSON_parse_tea_text tea_json_def
      cleaned_def generated_id_def example_draws_def endsWith_def split_lines_lunch_csv
      handleFileImport_def Let_def trim_def white_space_def strip_quotes_def csv_row_def)
    (simp add: example_host_def)

text \<open>
  The claim as it was stated fails: the import of a file whose one record has the
  category \<^verbatim>\<open>Travel\<close> puts that record into the store with the category \<^verbatim>\<open>Travel\<close>.
\<close>

theorem store_categories_counterexample:
  "list_all valid_category [coffee]
   \<and> handleImportJSON example_host example_draws travel_text [coffee]
       = (''Imported successfully'', [coffee, taxi])
   \<and> \<not> list_all valid_category [coffee, taxi]"
  by (simp add: handleImportJSON_def JSON_parse_travel_text travel_json_def cleaned_def
      generated_id_def example_draws_def taxi_def valid_category_def CATEGORY_META_def coffee_def)

subsection \<open>Totals by category and by month\<close>

lemma sum_values_mset:
  "sum_values m =
     (if PText \<in> snd ` set m then None
      else Some (sum_mset (image_mset (\<lambda>p. case snd p of PNum x \<Rightarrow> x | PText \<Rightarrow> 0) (mset m))))"
proof (induction m)
  case Nil
  show ?case by simp
next
  case (Cons p m)
  obtain k v where p: "p = (k, v)" by (cases p)
  show ?case
    using Cons.IH by (cases v) (auto simp: p)
qed

lemma sum_values_perm: "mset m = mset m' \<Longrightarrow> sum_values m = sum_values m'"
proof -
  assume eq: "mset m = mset m'"
  then have "set m = set m'" by (rule mset_eq_setD)
  with eq show ?thesis by (simp add: sum_values_mset)
qed

lemma mset_own_entries: "mset (own_entries m) = mset m"
  by (simp add: own_entries_def)

lemma sum_values_no_text: "sum_values m = Some x \<Longrightarrow> map_of m k \<noteq> Some PText"
proof
  assume s: "sum_values m = Some x" and "map_of m k = Some PText"
  then have "(k, PText) \<in> set m" by (simp add: map_of_SomeD)
  then have "PText \<in> snd ` set m" by force
  with s show False by (simp add: sum_values_mset)
qed

lemma sum_values_put_new:
  "map_of m k = None \<Longrightarrow> sum_values m = Some x \<Longrightarrow>
     sum_values (put k (PNum a) m) = Some (x + a)"
proof (induction m arbitrary: x)
  case Nil
  then show ?case by simp
next
  case (Cons p m)
  obtain k' v where p: "p = (k', v)" by (cases p)
  from Cons.prems p obtain y z
    where v: "v = PNum y" and z: "sum_values m = Some z" and x: "x = y + z"
    by (cases v) auto
  from Cons.prems p have "k' \<noteq> k" and "map_of m k = None" by (auto split: if_splits)
  with Cons.IH [OF _ z] show ?case by (simp add: p v x)
qed

lemma sum_values_put_old:
  "map_of m k = Some (PNum v) \<Longrightarrow> sum_values m = Some x \<Longrightarrow>
     sum_values (put k (PNum (v + a)) m) = Some (x + a)"
proof (induction m arbitrary: x)
  case Nil
  then show ?case by simp
next
  case (Cons p m)
  obtain k' w where p: "p = (k', w)" by (cases p)
  from Cons.prems p obtain y z
    where w: "w = PNum y" and z: "sum_values m = Some z" and x: "x = y + z"
    by (cases w) auto
  show ?case
  proof (cases "k' = k")
    case True
    with Cons.prems p w have "y = v" by simp
    with True show ?thesis by (simp add: p w x z)
  next
    case False
    with Cons.prems p have "map_of m k = Some (PNum v)" by simp
    from Cons.IH [OF this z] False show ?thesis by (simp add: p w x)
  qed
qed

text \<open>Under a key that is not inherited, one step of the accumulation adds the amount.\<close>

lemma add_to_sum:
  assumes "k \<notin> set Object_prototype_names" and "sum_values acc = Some x"
  shows "sum_values (add_to acc k a) = Some (x + a)"
proof (cases "map_of acc k")
  case None
  with assms show ?thesis by (simp add: add_to_def obj_get_def sum_values_put_new)
next
  case (Some v)
  with sum_values_no_text [OF assms(2), of k] obtain y where "v = PNum y" by (cases v) auto
  with Some assms show ?thesis by (simp add: add_to_def obj_get_def sum_values_put_old)
qed

lemma foldl_add_to_sum:
  "\<forall>e \<in> set es. P e \<longrightarrow> g e \<notin> set Object_prototype_names \<Longrightarrow> sum_values acc = Some x \<Longrightarrow>
     sum_values (foldl (\<lambda>acc e. if P e then add_to acc (g e) (amount e) else acc) acc es)
       = Some (x + sum_list (map amount (filter P es)))"
proof (induction es arbitrary: acc x)
  case Nil
  then show ?case by simp
next
  case (Cons e es)
  show ?case
  proof (cases "P e")
    case True
    with Cons.prems have "sum_values (add_to acc (g e) (amount e)) = Some (x + amount e)"
      by (simp add: add_to_sum)
    from Cons.IH [OF _ this] Cons.prems(1) True show ?thesis by (simp add: add.assoc)
  next
    case False
    with Cons.IH [OF _ Cons.prems(2)] Cons.prems(1) show ?thesis by simp
  qed
qed

text \<open>
  In the exact arithmetic of the model the totals by category add up to the grand total
  when no category is the name of an inherited property. (The program adds doubles, in
  another order for the categories than for the grand total, so that its two sums can
  differ by the rounding when the sums are not exact.)
\<close>

lemma categoryTotals_sum:
  assumes "\<forall>e \<in> set es. key_of h (category e) \<notin> set Object_prototype_names"
  shows "sum_values (categoryTotals h es) = Some (total es)"
  using foldl_add_to_sum [of es "\<lambda>e. True" "\<lambda>e. key_of h (category e)" "[]" 0] assms
  by (simp add: categoryTotals_def total_sum_list)

lemma valid_category_not_inherited:
  "valid_category e \<Longrightarrow> key_of h (category e) \<notin> set Object_prototype_names"
  by (auto simp: valid_category_def CATEGORY_META_def Object_prototype_names_def)

lemma monthKey_not_inherited: "monthKey h d \<notin> set Object_prototype_names"
proof (cases "Date_value h d")
  case None
  then show ?thesis by (simp add: monthKey_def Object_prototype_names_def)
next
  case (Some t)
  have "CHR ''-'' \<in> set (monthKey h d)" by (simp add: monthKey_def Some year_month_def)
  moreover have "\<forall>n \<in> set Object_prototype_names. CHR ''-'' \<notin> set n"
    by (simp add: Object_prototype_names_def)
  ultimately show ?thesis by blast
qed

text \<open>
  In the exact arithmetic of the model the totals by month add up to the grand total,
  for every list of records.
\<close>

lemma monthlyTotals_sum: "sum_values (monthlyTotals h es) = Some (total es)"
proof -
  let ?m = "foldl (\<lambda>m e. add_to m (monthKey h (date e)) (amount e)) [] es"
  have "sum_values ?m = Some (total es)"
    using foldl_add_to_sum [of es "\<lambda>e. True" "\<lambda>e. monthKey h (date e)" "[]" 0]
    by (simp add: monthKey_not_inherited total_sum_list)
  moreover have "mset (monthlyTotals h es) = mset ?m"
    by (simp add: monthlyTotals_def mset_js_sort mset_own_entries)
  then have "sum_values (monthlyTotals h es) = sum_values ?m"
    by (rule sum_values_perm)
  ultimately show ?thesis by simp
qed

text \<open>The scenario of the specification: two records of January 2024.\<close>

lemma totals_of_coffee_and_bus:
  "monthlyTotals example_host [coffee, bus] = [(''2024-01'', PNum 7)]
   \<and> categoryTotals example_host [coffee, bus]
       = [(''Food & Drink'', PNum 5), (''Transportation'', PNum 2)]
   \<and> monthlyTotals example_host [coffee, movie, bus]
       = [(''2024-01'', PNum 7), (''2024-02'', PNum 8)]"
  by (simp add: monthlyTotals_def categoryTotals_def add_to_def obj_get_def
      Object_prototype_names_def monthKey_def example_host_def year_month_def show_int_def
      show_nat.simps padStart2_def own_entries_def array_index_def digit_def js_sort_def
      answers_are_numbers_def positive_def coffee_def bus_def movie_def)

text \<open>
  Claim C1. The sum of the totals by category and the sum of the totals by month are
  both the sum of all amounts. The code breaks this for a record with the category
  \<^verbatim>\<open>__proto__\<close>, which an import accepts: the record loses its amount in the totals by
  category. After the import of such a gift of 12.5 into a store with a coffee of 5 the
  amounts sum to 17.5, the totals by month to 17.5, and the totals by category to 5
  (these sums are exact in doubles).
\<close>

theorem categoryTotals_omits_proto:
  "handleFileImport example_host example_draws
     \<lparr> file_name = ''gift.csv'', file_type = ''text/csv'', file_text = gift_csv \<rparr> [coffee]
     = (''CSV imported (basic parser)'', [coffee, gift])
   \<and> total [coffee, gift] = 35 / 2
   \<and> categoryTotals example_host [coffee, gift] = [(''Food & Drink'', PNum 5)]
   \<and> sum_values (categoryTotals example_host [coffee, gift]) = Some 5
   \<and> sum_values (monthlyTotals example_host [coffee, gift]) = Some (35 / 2)"
proof -
  have "split_lines gift_csv = [''reason,amount,category'', ''Gift,12.5,__proto__'']"
    by (simp add: gift_csv_def split_lines_def strip_cr_def)
  then have "handleFileImport example_host example_draws
     \<lparr> file_name = ''gift.csv'', file_type = ''text/csv'', file_text = gift_csv \<rparr> [coffee]
     = (''CSV imported (basic parser)'', [coffee, gift])"
    by (simp add: handleFileImport_def endsWith_def Let_def trim_def white_space_def
        strip_quotes_def cleaned_def csv_row_def generated_id_def example_draws_def
        example_host_def gift_def)
  moreover have "total [coffee, gift] = 35 / 2"
    by (simp add: total_def coffee_def gift_def)
  moreover have "categoryTotals example_host [coffee, gift] = [(''Food & Drink'', PNum 5)]"
    by (simp add: categoryTotals_def add_to_def obj_get_def Object_prototype_names_def
        coffee_def gift_def)
  moreover have "monthlyTotals example_host [coffee, gift]
      = [(''2024-01'', PNum 5), (''2024-02'', PNum (25 / 2))]"
    by (simp add: monthlyTotals_def add_to_def obj_get_def Object_prototype_names_def
        monthKey_def example_host_def year_month_def show_int_def show_nat.simps padStart2_def
        own_entries_def array_index_def digit_def js_sort_def answers_are_numbers_def
        positive_def coffee_def gift_def)
  then have "sum_values (monthlyTotals example_host [coffee, gift]) = Some (35 / 2)"
    by simp
  ultimately show ?thesis by simp
qed

end
